theory Spec2Isabelle
  imports Complex_Main
begin

section \<open>Numbers\<close>

text \<open>
  The quantities and prices of \<^verbatim>\<open>CreateOrderService.ts\<close> have the type \<^verbatim>\<open>number\<close>:
  a finite value, one of the two infinities, or \<^verbatim>\<open>NaN\<close>. The finite values are taken
  as real numbers, so that arithmetic on them is exact: the rounding of a double (beyond
  \<open>2 ^ 53\<close> for integers) is not part of this model, nor is the sign of zero.
  The service compares two numbers with \<^verbatim>\<open>></\<close> (line 73) and subtracts one from
  another (line 79); \<open><\<close>, \<open>\<le>\<close> and \<open>-\<close> below are those operations, with every
  comparison involving \<^verbatim>\<open>NaN\<close> false and every difference involving \<^verbatim>\<open>NaN\<close>, or of
  two equal infinities, \<^verbatim>\<open>NaN\<close>.
\<close>

datatype number = Finite real | PosInf | NegInf | NaN

instantiation number :: "{ord, minus}"
begin

fun less_number :: "number \<Rightarrow> number \<Rightarrow> bool" where
  "less_number (Finite a) (Finite b) = (a < b)"
| "less_number (Finite a) PosInf = True"
| "less_number NegInf (Finite b) = True"
| "less_number NegInf PosInf = True"
| "less_number _ _ = False"

fun less_eq_number :: "number \<Rightarrow> number \<Rightarrow> bool" where
  "less_eq_number (Finite a) (Finite b) = (a \<le> b)"
| "less_eq_number (Finite a) PosInf = True"
| "less_eq_number NegInf (Finite b) = True"
| "less_eq_number NegInf PosInf = True"
| "less_eq_number NegInf NegInf = True"
| "less_eq_number PosInf PosInf = True"
| "less_eq_number _ _ = False"

fun minus_number :: "number \<Rightarrow> number \<Rightarrow> number" where
  "minus_number (Finite a) (Finite b) = Finite (a - b)"
| "minus_number (Finite a) PosInf = NegInf"
| "minus_number (Finite a) NegInf = PosInf"
| "minus_number PosInf (Finite b) = PosInf"
| "minus_number PosInf NegInf = PosInf"
| "minus_number NegInf (Finite b) = NegInf"
| "minus_number NegInf PosInf = NegInf"
| "minus_number _ _ = NaN"

instance ..

end

text \<open>
  A non-negative integer, as the specification has the quantities of the catalog.
\<close>

fun nonNegativeInteger :: "number \<Rightarrow> bool" where
  "nonNegativeInteger (Finite r) = (0 \<le> r \<and> of_int \<lfloor>r\<rfloor> = r)"
| "nonNegativeInteger _ = False"

section \<open>CreateOrderService: data model\<close>

text \<open>
  The service lives in \<^verbatim>\<open>src/modules/orders/services/CreateOrderService.ts\<close>.
  A requested line is the interface \<^verbatim>\<open>IProduct\<close> (\<^verbatim>\<open>id: string\<close>,
  \<^verbatim>\<open>quantity: number\<close>). The field \<^verbatim>\<open>id\<close> is written \<open>id'\<close> here, since \<open>id\<close> is the
  identity function of HOL.
\<close>

record IProduct =
  id' :: string
  quantity :: number

text \<open>
  Modelled from the spec: the entity \<^verbatim>\<open>Product\<close>, which the service imports and whose
  declaration is not part of the source at hand. The specification gives it a unique id,
  an available quantity and a unit price; the service reads \<^verbatim>\<open>id\<close>, \<^verbatim>\<open>quantity\<close> and
  \<^verbatim>\<open>price\<close> of it and copies everything else with the spread \<^verbatim>\<open>...matchProduct\<close>. It
  is the record below with its extension slot: a value of \<open>'m Product_scheme\<close> carries the
  three fields the service reads and, in the slot of type \<open>'m\<close>, every remaining
  attribute.
\<close>

record Product = IProduct +
  price :: number

text \<open>
  \<^verbatim>\<open>IRequest\<close>: the argument of \<^verbatim>\<open>execute\<close>.
\<close>

record IRequest =
  customer_id :: string
  products :: "IProduct list"

text \<open>
  \<^verbatim>\<open>IValidation\<close>, the accumulator of the reduction. Its two trackers have the fields
  \<^verbatim>\<open>first: null | string\<close> and \<^verbatim>\<open>quantity: number\<close> (here \<open>quantity_t\<close>, a counter
  that starts at 0 and only grows by 1); the elements of \<^verbatim>\<open>sanitizedProducts\<close> have
  \<^verbatim>\<open>product_id\<close>, \<^verbatim>\<open>quantity\<close> (here \<open>quantity_s\<close>) and \<^verbatim>\<open>price\<close> (here \<open>price_s\<close>).
\<close>

record tracker =
  first :: "string option"
  quantity_t :: nat

record sanitized =
  product_id :: string
  quantity_s :: number
  price_s :: number

record 'm IValidation =
  nonExistentProducts :: tracker
  invalidQuantityProducts :: tracker
  sanitizedProducts :: "sanitized list"
  productsToUpdate :: "'m Product_scheme list"

text \<open>
  \<^verbatim>\<open>throw new AppError(message)\<close>: the error value carries the message.
\<close>

datatype AppError = AppError string

text \<open>
  The three repositories are injected collaborators. Their reads are taken as functions
  (the answers the stores give during this call), \<^verbatim>\<open>findById\<close> answering \<open>None\<close> for
  \<^verbatim>\<open>undefined\<close>; \<^verbatim>\<open>create\<close> answers the persisted order, of a type \<open>'o\<close> the service
  never looks into. Every call made to a collaborator is recorded, in order, in a trace,
  so that what the service asks of the stores, and what it does not, can be stated.
\<close>

record ('c, 'm, 'o) repositories =
  findById :: "string \<Rightarrow> 'c option"
  findAllById :: "IProduct list \<Rightarrow> 'm Product_scheme list"
  create :: "'c \<Rightarrow> sanitized list \<Rightarrow> 'o"

datatype ('c, 'm) call =
    FindById string
  | FindAllById "IProduct list"
  | Create 'c "sanitized list"
  | UpdateQuantity "'m Product_scheme list"

fun is_write :: "('c, 'm) call \<Rightarrow> bool" where
  "is_write (FindById _) = False"
| "is_write (FindAllById _) = False"
| "is_write (Create _ _) = True"
| "is_write (UpdateQuantity _) = True"

section \<open>The messages\<close>

text \<open>
  A counter is interpolated into the template literal in decimal.
\<close>

definition digit :: "nat \<Rightarrow> char" where
  "digit n = ''0123456789'' ! n"

fun string_of_nat :: "nat \<Rightarrow> string" where
  "string_of_nat n =
     (if n < 10 then [digit n] else string_of_nat (n div 10) @ [digit (n mod 10)])"

declare string_of_nat.simps [simp del]

text \<open>
  \<^verbatim>\<open>if (x.first)\<close> on a value of type \<^verbatim>\<open>null | string\<close>: \<^verbatim>\<open>null\<close> and the empty
  string are falsy, every other string is truthy. Interpolated into a template literal,
  \<^verbatim>\<open>null\<close> reads \<^verbatim>\<open>null\<close>.
\<close>

fun truthy :: "string option \<Rightarrow> bool" where
  "truthy None = False"
| "truthy (Some s) = (s \<noteq> [])"

fun interpolate :: "string option \<Rightarrow> string" where
  "interpolate None = ''null''"
| "interpolate (Some s) = s"

abbreviation apostrophe :: string where
  "apostrophe \<equiv> [CHR 0x27]"

definition customerNotFound :: string where
  "customerNotFound = ''Customer not found.''"

definition emptyOrder :: string where
  "emptyOrder = ''Less than one product to create an order.''"

definition productNotFound :: "tracker \<Rightarrow> string" where
  "productNotFound t =
     ''Could not find product_id '' @ apostrophe @ interpolate (first t) @ apostrophe @
     (if quantity_t t > 1
      then '' and others ('' @ string_of_nat (quantity_t t - 1) @ '') products.''
      else ''.'')"

definition insufficientStock :: "tracker \<Rightarrow> string" where
  "insufficientStock t =
     ''The given quantity for the product '' @ apostrophe @ interpolate (first t) @
     apostrophe @ '' is not available.'' @
     (if quantity_t t > 1
      then '' Another ('' @ string_of_nat (quantity_t t - 1) @
           '') products also exceed the quantity available.''
      else [])"

section \<open>The reduction over the requested lines\<close>

definition initialValidation :: "'m IValidation" where
  "initialValidation =
     \<lparr>nonExistentProducts = \<lparr>first = None, quantity_t = 0\<rparr>,
      invalidQuantityProducts = \<lparr>first = None, quantity_t = 0\<rparr>,
      sanitizedProducts = [],
      productsToUpdate = []\<rparr>"

text \<open>
  The callback of \<^verbatim>\<open>products.reduce\<close>. \<^verbatim>\<open>existingProducts.find\<close> answers the first
  entry with the line's id, or \<^verbatim>\<open>undefined\<close>; \<^verbatim>\<open>push\<close> appends at the end.
\<close>

definition reducer ::
  "'m Product_scheme list \<Rightarrow> 'm IValidation \<Rightarrow> IProduct \<Rightarrow> 'm IValidation" where
  "reducer existingProducts acc product =
     (case find (\<lambda>p. id' p = id' product) existingProducts of
        Some matchProduct \<Rightarrow>
          if quantity product > quantity matchProduct
          then acc\<lparr>invalidQuantityProducts :=
                     \<lparr>first = Some (id' product),
                      quantity_t = quantity_t (invalidQuantityProducts acc) + 1\<rparr>\<rparr>
          else acc\<lparr>productsToUpdate :=
                     productsToUpdate acc @
                       [matchProduct\<lparr>quantity := quantity matchProduct - quantity product\<rparr>],
                   sanitizedProducts :=
                     sanitizedProducts acc @
                       [\<lparr>product_id = id' product, quantity_s = quantity product,
                         price_s = price matchProduct\<rparr>]\<rparr>
      | None \<Rightarrow>
          acc\<lparr>nonExistentProducts :=
                \<lparr>first = Some (id' product),
                 quantity_t = quantity_t (nonExistentProducts acc) + 1\<rparr>\<rparr>)"

definition validate :: "'m Product_scheme list \<Rightarrow> IProduct list \<Rightarrow> 'm IValidation" where
  "validate existingProducts ps = foldl (reducer existingProducts) initialValidation ps"

section \<open>execute\<close>

text \<open>
  The result is the thrown error or the order returned, together with the trace of the
  collaborator calls made up to that point.
\<close>

definition execute ::
  "('c, 'm, 'o) repositories \<Rightarrow> IRequest \<Rightarrow> (AppError + 'o) \<times> ('c, 'm) call list" where
  "execute repos req =
     (case findById repos (customer_id req) of
        None \<Rightarrow> (Inl (AppError customerNotFound), [FindById (customer_id req)])
      | Some customer \<Rightarrow>
          if products req = []
          then (Inl (AppError emptyOrder), [FindById (customer_id req)])
          else
            let existingProducts = findAllById repos (products req);
                v = validate existingProducts (products req);
                reads = [FindById (customer_id req), FindAllById (products req)]
            in if truthy (first (nonExistentProducts v))
               then (Inl (AppError (productNotFound (nonExistentProducts v))), reads)
               else if truthy (first (invalidQuantityProducts v))
               then (Inl (AppError (insufficientStock (invalidQuantityProducts v))), reads)
               else (Inr (create repos customer (sanitizedProducts v)),
                     reads @ [Create customer (sanitizedProducts v),
                              UpdateQuantity (productsToUpdate v)]))"

section \<open>Per-line outcome, as the specification words it\<close>

text \<open>
  The specification describes the reduction line by line: a line whose id has no
  catalog entry is non-existent; otherwise, a line asking for more than the entry holds
  has insufficient stock; otherwise the line is accepted, with the entry it matched.
  \<open>classify\<close> is that description; the lemmas below relate it to \<open>reducer\<close>.
\<close>

definition findMatch :: "'m Product_scheme list \<Rightarrow> IProduct \<Rightarrow> 'm Product_scheme option" where
  "findMatch existingProducts product = find (\<lambda>p. id' p = id' product) existingProducts"

datatype 'm outcome = NonExistent | InvalidQuantity | Accepted "'m Product_scheme"

definition classify :: "'m Product_scheme list \<Rightarrow> IProduct \<Rightarrow> 'm outcome" where
  "classify existingProducts product =
     (case findMatch existingProducts product of
        None \<Rightarrow> NonExistent
      | Some m \<Rightarrow> if quantity product > quantity m then InvalidQuantity else Accepted m)"

definition sanitizedLine :: "'m Product_scheme \<Rightarrow> IProduct \<Rightarrow> sanitized" where
  "sanitizedLine m product =
     \<lparr>product_id = id' product, quantity_s = quantity product, price_s = price m\<rparr>"

definition stockUpdate :: "'m Product_scheme \<Rightarrow> IProduct \<Rightarrow> 'm Product_scheme" where
  "stockUpdate m product = m\<lparr>quantity := quantity m - quantity product\<rparr>"

fun sanitizedOf :: "'m Product_scheme list \<Rightarrow> IProduct \<Rightarrow> sanitized list" where
  "sanitizedOf ex l = (case classify ex l of Accepted m \<Rightarrow> [sanitizedLine m l] | _ \<Rightarrow> [])"

fun updatesOf :: "'m Product_scheme list \<Rightarrow> IProduct \<Rightarrow> 'm Product_scheme list" where
  "updatesOf ex l = (case classify ex l of Accepted m \<Rightarrow> [stockUpdate m l] | _ \<Rightarrow> [])"

text \<open>
  A line is accepted when it has the third outcome.
\<close>

fun accepted :: "'m Product_scheme list \<Rightarrow> IProduct \<Rightarrow> bool" where
  "accepted ex l = (case classify ex l of Accepted m \<Rightarrow> True | _ \<Rightarrow> False)"

text \<open>
  The catalog entries fetched in a call: \<^verbatim>\<open>existingProducts\<close> in the source.
\<close>

abbreviation fetched :: "('c, 'm, 'o) repositories \<Rightarrow> IRequest \<Rightarrow> 'm Product_scheme list" where
  "fetched repos req \<equiv> findAllById repos (products req)"

text \<open>
  The four results of the reduction, by the names the specification gives them.
\<close>

abbreviation nonExistentCount :: "'m Product_scheme list \<Rightarrow> IProduct list \<Rightarrow> nat" where
  "nonExistentCount ex ps \<equiv> quantity_t (nonExistentProducts (validate ex ps))"

abbreviation invalidQuantityCount :: "'m Product_scheme list \<Rightarrow> IProduct list \<Rightarrow> nat" where
  "invalidQuantityCount ex ps \<equiv> quantity_t (invalidQuantityProducts (validate ex ps))"

abbreviation sanitizedLines :: "'m Product_scheme list \<Rightarrow> IProduct list \<Rightarrow> sanitized list" where
  "sanitizedLines ex ps \<equiv> sanitizedProducts (validate ex ps)"

abbreviation stockUpdates ::
  "'m Product_scheme list \<Rightarrow> IProduct list \<Rightarrow> 'm Product_scheme list" where
  "stockUpdates ex ps \<equiv> productsToUpdate (validate ex ps)"

section \<open>In-memory collaborators for the concrete scenarios\<close>

text \<open>
  Modelled from the spec: the implementations of the three repositories, which are not
  part of the source at hand. The theorems below hold for any repositories; for a
  concrete run they are instantiated with stores held in memory, following the interfaces
  the specification lists: \<^verbatim>\<open>findById\<close> answers the customer with that id or nothing,
  \<^verbatim>\<open>findAllById\<close> answers the catalog entries whose id is among those asked for (only
  the existing ones), \<^verbatim>\<open>create\<close> answers an order made of the customer and the lines.
  A customer is represented by its id, an order by the pair of customer and lines.
\<close>

definition inMemory ::
  "string list \<Rightarrow> 'm Product_scheme list \<Rightarrow> (string, 'm, string \<times> sanitized list) repositories"
  where
  "inMemory customers catalog =
     \<lparr>findById = (\<lambda>i. if i \<in> set customers then Some i else None),
      findAllById = (\<lambda>ps. filter (\<lambda>p. id' p \<in> set (map id' ps)) catalog),
      create = (\<lambda>c ls. (c, ls))\<rparr>"

text \<open>
  The catalog of the specification's scenario: \<^verbatim>\<open>P1\<close> with 5 in stock at 10.0,
  \<^verbatim>\<open>P2\<close> with 2 in stock at 3.0.
\<close>

definition scenarioCatalog :: "Product list" where
  "scenarioCatalog =
     [\<lparr>id' = ''P1'', quantity = Finite 5, price = Finite 10\<rparr>, \<lparr>id' = ''P2'', quantity = Finite 2, price = Finite 3\<rparr>]"

section \<open>Comparing and subtracting numbers\<close>

lemma le_not_less: "(a::number) \<le> b \<Longrightarrow> \<not> b < a"
  by (cases a; cases b) simp_all

lemma difference_nonnegative:
  "nonNegativeInteger m \<Longrightarrow> l \<noteq> NaN \<Longrightarrow> \<not> m < l \<Longrightarrow> Finite 0 \<le> m - l"
  by (cases m; cases l) simp_all

lemma nonpositive_not_exceeding:
  "l \<le> Finite 0 \<Longrightarrow> Finite 0 \<le> m \<Longrightarrow> \<not> m < l \<and> m \<le> m - l"
  by (cases m; cases l) simp_all

section \<open>The reduction, line by line\<close>

lemma reducer_classify:
  "reducer ex acc l =
     (case classify ex l of
        NonExistent \<Rightarrow>
          acc\<lparr>nonExistentProducts :=
                \<lparr>first = Some (id' l), quantity_t = quantity_t (nonExistentProducts acc) + 1\<rparr>\<rparr>
      | InvalidQuantity \<Rightarrow>
          acc\<lparr>invalidQuantityProducts :=
                \<lparr>first = Some (id' l),
                 quantity_t = quantity_t (invalidQuantityProducts acc) + 1\<rparr>\<rparr>
      | Accepted m \<Rightarrow>
          acc\<lparr>productsToUpdate := productsToUpdate acc @ [stockUpdate m l],
              sanitizedProducts := sanitizedProducts acc @ [sanitizedLine m l]\<rparr>)"
  by (simp add: reducer_def classify_def findMatch_def sanitizedLine_def stockUpdate_def
           split: option.splits)

lemma fold_sanitized:
  "sanitizedProducts (foldl (reducer ex) acc ps) =
     sanitizedProducts acc @ concat (map (sanitizedOf ex) ps)"
  by (induction ps arbitrary: acc) (simp_all add: reducer_classify split: outcome.splits)

lemma fold_updates:
  "productsToUpdate (foldl (reducer ex) acc ps) =
     productsToUpdate acc @ concat (map (updatesOf ex) ps)"
  by (induction ps arbitrary: acc) (simp_all add: reducer_classify split: outcome.splits)

lemma fold_nonExistent_count:
  "quantity_t (nonExistentProducts (foldl (reducer ex) acc ps)) =
     quantity_t (nonExistentProducts acc) +
     length (filter (\<lambda>l. classify ex l = NonExistent) ps)"
  by (induction ps arbitrary: acc) (simp_all add: reducer_classify split: outcome.splits)

lemma fold_invalid_count:
  "quantity_t (invalidQuantityProducts (foldl (reducer ex) acc ps)) =
     quantity_t (invalidQuantityProducts acc) +
     length (filter (\<lambda>l. classify ex l = InvalidQuantity) ps)"
  by (induction ps arbitrary: acc) (simp_all add: reducer_classify split: outcome.splits)

text \<open>
  The tracker's \<open>first\<close> is assigned at every line of its kind, so after the reduction
  it holds the id of the last such line.
\<close>

lemma fold_nonExistent_first:
  "first (nonExistentProducts (foldl (reducer ex) acc ps)) =
     (case rev (filter (\<lambda>l. classify ex l = NonExistent) ps) of
        [] \<Rightarrow> first (nonExistentProducts acc)
      | l # _ \<Rightarrow> Some (id' l))"
  by (induction ps rule: rev_induct) (simp_all add: reducer_classify split: outcome.splits)

lemma fold_invalid_first:
  "first (invalidQuantityProducts (foldl (reducer ex) acc ps)) =
     (case rev (filter (\<lambda>l. classify ex l = InvalidQuantity) ps) of
        [] \<Rightarrow> first (invalidQuantityProducts acc)
      | l # _ \<Rightarrow> Some (id' l))"
  by (induction ps rule: rev_induct) (simp_all add: reducer_classify split: outcome.splits)

lemma classify_Accepted_iff:
  "classify ex l = Accepted m \<longleftrightarrow> findMatch ex l = Some m \<and> \<not> quantity m < quantity l"
  by (auto simp: classify_def split: option.splits)

lemma classify_NonExistent_iff: "classify ex l = NonExistent \<longleftrightarrow> findMatch ex l = None"
  by (simp add: classify_def split: option.splits)

lemma classify_InvalidQuantity_iff:
  "classify ex l = InvalidQuantity \<longleftrightarrow> (\<exists>m. findMatch ex l = Some m \<and> quantity l > quantity m)"
  by (auto simp: classify_def split: option.splits)

lemma accepted_iff:
  "accepted ex l \<longleftrightarrow> (\<exists>m. findMatch ex l = Some m \<and> \<not> quantity m < quantity l)"
  by (auto simp: classify_def split: option.splits)

lemma accepted_le:
  "findMatch ex l = Some m \<Longrightarrow> quantity l \<le> quantity m \<Longrightarrow> accepted ex l"
  by (simp add: classify_def le_not_less)

lemma findMatch_Some: "findMatch ex l = Some m \<Longrightarrow> m \<in> set ex \<and> id' m = id' l"
  by (auto simp: findMatch_def find_Some_iff)

lemma validate_sanitized:
  "sanitizedProducts (validate ex ps) = concat (map (sanitizedOf ex) ps)"
  by (simp add: validate_def fold_sanitized initialValidation_def)

lemma validate_updates:
  "productsToUpdate (validate ex ps) = concat (map (updatesOf ex) ps)"
  by (simp add: validate_def fold_updates initialValidation_def)

lemma validate_nonExistent_count:
  "quantity_t (nonExistentProducts (validate ex ps)) =
     length (filter (\<lambda>l. classify ex l = NonExistent) ps)"
  by (simp add: validate_def fold_nonExistent_count initialValidation_def)

lemma validate_invalid_count:
  "quantity_t (invalidQuantityProducts (validate ex ps)) =
     length (filter (\<lambda>l. classify ex l = InvalidQuantity) ps)"
  by (simp add: validate_def fold_invalid_count initialValidation_def)

lemma validate_nonExistent_first:
  "first (nonExistentProducts (validate ex ps)) =
     (case rev (filter (\<lambda>l. classify ex l = NonExistent) ps) of
        [] \<Rightarrow> None | l # _ \<Rightarrow> Some (id' l))"
  by (simp add: validate_def fold_nonExistent_first initialValidation_def split: list.splits)

lemma validate_invalid_first:
  "first (invalidQuantityProducts (validate ex ps)) =
     (case rev (filter (\<lambda>l. classify ex l = InvalidQuantity) ps) of
        [] \<Rightarrow> None | l # _ \<Rightarrow> Some (id' l))"
  by (simp add: validate_def fold_invalid_first initialValidation_def split: list.splits)

lemma update_origin:
  assumes "u \<in> set (productsToUpdate (validate ex ps))"
  shows "\<exists>l \<in> set ps. \<exists>m. findMatch ex l = Some m \<and> \<not> quantity m < quantity l \<and>
           u = m\<lparr>quantity := quantity m - quantity l\<rparr>"
proof -
  from assms obtain l where l: "l \<in> set ps" "u \<in> set (updatesOf ex l)"
    by (auto simp: validate_updates)
  then obtain m where m: "classify ex l = Accepted m" "u = stockUpdate m l"
    by (cases "classify ex l") simp_all
  then have "findMatch ex l = Some m \<and> \<not> quantity m < quantity l"
    by (simp add: classify_Accepted_iff)
  with l m show ?thesis
    unfolding stockUpdate_def by blast
qed

text \<open>
  The two lists of the reduction follow the accepted lines, one element per accepted
  line and in the order of the request.
\<close>

lemma updates_positional:
  "list_all2 (\<lambda>l u. \<exists>m. findMatch ex l = Some m \<and>
                u = m\<lparr>quantity := quantity m - quantity l\<rparr>)
     (filter (accepted ex) ps) (productsToUpdate (validate ex ps))"
  unfolding validate_updates
proof (induction ps)
  case Nil
  show ?case by simp
next
  case (Cons l ps)
  show ?case
  proof (cases "classify ex l")
    case (Accepted m)
    then have "findMatch ex l = Some m" by (simp add: classify_Accepted_iff)
    with Accepted Cons show ?thesis by (simp add: stockUpdate_def)
  qed (use Cons in simp_all)
qed

lemma sanitized_positional:
  "list_all2 (\<lambda>l s. \<exists>m. findMatch ex l = Some m \<and>
                s = \<lparr>product_id = id' l, quantity_s = quantity l, price_s = price m\<rparr>)
     (filter (accepted ex) ps) (sanitizedProducts (validate ex ps))"
  unfolding validate_sanitized
proof (induction ps)
  case Nil
  show ?case by simp
next
  case (Cons l ps)
  show ?case
  proof (cases "classify ex l")
    case (Accepted m)
    then have "findMatch ex l = Some m" by (simp add: classify_Accepted_iff)
    with Accepted Cons show ?thesis by (simp add: sanitizedLine_def)
  qed (use Cons in simp_all)
qed

lemma all_accepted_trackers:
  assumes "\<forall>l \<in> set ps. accepted ex l"
  shows "first (nonExistentProducts (validate ex ps)) = None"
    and "first (invalidQuantityProducts (validate ex ps)) = None"
proof -
  have "filter (\<lambda>l. classify ex l = NonExistent) ps = []"
    using assms by (auto simp: filter_empty_conv)
  then show "first (nonExistentProducts (validate ex ps)) = None"
    by (simp add: validate_nonExistent_first)
  have "filter (\<lambda>l. classify ex l = InvalidQuantity) ps = []"
    using assms by (auto simp: filter_empty_conv)
  then show "first (invalidQuantityProducts (validate ex ps)) = None"
    by (simp add: validate_invalid_first)
qed

text \<open>
  What \<open>execute\<close> hands to \<^verbatim>\<open>updateQuantity\<close> is the list the reduction computed, and
  a call for a known customer whose lines are all accepted does hand it over, as its last
  collaborator call.
\<close>

lemma execute_updates:
  assumes "UpdateQuantity us \<in> set (snd (execute repos req))"
  shows "us = productsToUpdate (validate (findAllById repos (products req)) (products req))"
  using assms by (auto simp: execute_def Let_def split: option.splits if_splits)

lemma execute_all_accepted:
  assumes "findById repos (customer_id req) = Some c"
    and "products req \<noteq> []"
    and "\<forall>l \<in> set (products req). accepted (findAllById repos (products req)) l"
  shows "execute repos req =
           (Inr (create repos c
                   (sanitizedProducts
                      (validate (findAllById repos (products req)) (products req)))),
            [FindById (customer_id req), FindAllById (products req),
             Create c (sanitizedProducts
                         (validate (findAllById repos (products req)) (products req))),
             UpdateQuantity (productsToUpdate
                         (validate (findAllById repos (products req)) (products req)))])"
  using assms(1,2) all_accepted_trackers [OF assms(3)]
  by (simp add: execute_def Let_def)

lemma validate_split:
  "nonExistentCount ex (xs @ l # ys) =
     nonExistentCount ex xs + (if classify ex l = NonExistent then 1 else 0) +
     nonExistentCount ex ys"
  "invalidQuantityCount ex (xs @ l # ys) =
     invalidQuantityCount ex xs + (if classify ex l = InvalidQuantity then 1 else 0) +
     invalidQuantityCount ex ys"
  "sanitizedLines ex (xs @ l # ys) =
     sanitizedLines ex xs @ sanitizedOf ex l @ sanitizedLines ex ys"
  "stockUpdates ex (xs @ l # ys) = stockUpdates ex xs @ updatesOf ex l @ stockUpdates ex ys"
  by (simp_all add: validate_nonExistent_count validate_invalid_count validate_sanitized
        validate_updates)



lemma case_rev_last:
  "xs \<noteq> [] \<Longrightarrow> (case rev xs of [] \<Rightarrow> a | x # _ \<Rightarrow> f x) = f (last xs)"
  by (induction xs rule: rev_induct) simp_all

lemma validate_nonExistent:
  "nonExistentProducts (validate ex ps) =
     (let missing = filter (\<lambda>l. findMatch ex l = None) ps
      in \<lparr>first = (if missing = [] then None else Some (id' (last missing))),
          quantity_t = length missing\<rparr>)"
  by (rule tracker.equality)
    (simp_all add: validate_nonExistent_first validate_nonExistent_count
       classify_NonExistent_iff case_rev_last Let_def)

lemma validate_invalidQuantity:
  "invalidQuantityProducts (validate ex ps) =
     (let exceeding = filter (\<lambda>l. classify ex l = InvalidQuantity) ps
      in \<lparr>first = (if exceeding = [] then None else Some (id' (last exceeding))),
          quantity_t = length exceeding\<rparr>)"
  by (rule tracker.equality)
    (simp_all add: validate_invalid_first validate_invalid_count case_rev_last Let_def)

section \<open>Which error a failing call raises\<close>

text \<open>
  With a known customer, the call fails on the non-existent tracker when its \<open>first\<close>
  is truthy, that is when some line is missing and the last missing line has a non-empty
  id; the message names that last id and counts the missing lines. Otherwise it fails on
  the quantity tracker under the same condition on the lines asking for too much.
\<close>

lemma execute_productNotFound:
  assumes "findById repos (customer_id req) = Some c"
    and "missing = filter (\<lambda>l. findMatch (findAllById repos (products req)) l = None)
                     (products req)"
    and "missing \<noteq> []" and "id' (last missing) \<noteq> []"
  shows "execute repos req =
           (Inl (AppError (productNotFound
                  \<lparr>first = Some (id' (last missing)), quantity_t = length missing\<rparr>)),
            [FindById (customer_id req), FindAllById (products req)])"
proof -
  from assms have "products req \<noteq> []" by auto
  with assms show ?thesis
    by (simp add: execute_def Let_def validate_nonExistent)
qed

lemma execute_insufficientStock:
  assumes "findById repos (customer_id req) = Some c"
    and "missing = filter (\<lambda>l. findMatch (findAllById repos (products req)) l = None)
                     (products req)"
    and "missing = [] \<or> id' (last missing) = []"
    and "exceeding = filter (\<lambda>l. classify (findAllById repos (products req)) l = InvalidQuantity)
                       (products req)"
    and "exceeding \<noteq> []" and "id' (last exceeding) \<noteq> []"
  shows "execute repos req =
           (Inl (AppError (insufficientStock
                  \<lparr>first = Some (id' (last exceeding)), quantity_t = length exceeding\<rparr>)),
            [FindById (customer_id req), FindAllById (products req)])"
proof -
  from assms have "products req \<noteq> []" by auto
  with assms show ?thesis
    by (auto simp: execute_def Let_def validate_nonExistent validate_invalidQuantity)
qed

text \<open>
  The definitions unfolded to run a call on concrete data.
\<close>

lemmas run_simps = execute_def inMemory_def scenarioCatalog_def validate_def reducer_def
  initialValidation_def Let_def findMatch_def productNotFound_def insufficientStock_def
  string_of_nat.simps digit_def

section \<open>A successful call\<close>

text \<open>
  Claim C1. When the customer exists, the request is not empty and every requested line
  matches a fetched catalog entry whose quantity it does not exceed, \<open>execute\<close>
  returns the order that \<^verbatim>\<open>ordersRepository.create\<close> answers for the customer and the
  sanitized lines, one per requested line and in request order, each with the line's id
  and quantity and the price of the catalog entry fetched in this call; the update handed
  to \<^verbatim>\<open>updateQuantity\<close> holds, for each line in order, the fetched entry with its
  quantity reduced by the requested quantity. The calls made are, in order: the customer
  lookup, the catalog fetch, the creation of the order, the bulk update.
\<close>

theorem execute_success:
  assumes cust: "findById repos (customer_id req) = Some c"
    and nonempty: "products req \<noteq> []"
    and ok: "\<forall>l \<in> set (products req).
               \<exists>m. findMatch (findAllById repos (products req)) l = Some m \<and>
                   quantity l \<le> quantity m"
  shows "\<exists>lines ups.
           execute repos req =
             (Inr (create repos c lines),
              [FindById (customer_id req), FindAllById (products req),
               Create c lines, UpdateQuantity ups]) \<and>
           list_all2 (\<lambda>l s. \<exists>m. findMatch (findAllById repos (products req)) l = Some m \<and>
                         s = \<lparr>product_id = id' l, quantity_s = quantity l, price_s = price m\<rparr>)
             (products req) lines \<and>
           list_all2 (\<lambda>l u. \<exists>m. findMatch (findAllById repos (products req)) l = Some m \<and>
                         u = m\<lparr>quantity := quantity m - quantity l\<rparr>)
             (products req) ups"
proof -
  let ?ex = "findAllById repos (products req)"
  let ?v = "validate ?ex (products req)"
  from ok have all: "\<forall>l \<in> set (products req). accepted ?ex l"
    using accepted_le by blast
  then have keep: "filter (accepted ?ex) (products req) = products req"
    by simp
  have run: "execute repos req =
      (Inr (create repos c (sanitizedProducts ?v)),
       [FindById (customer_id req), FindAllById (products req),
        Create c (sanitizedProducts ?v), UpdateQuantity (productsToUpdate ?v)])"
    using cust nonempty all by (rule execute_all_accepted)
  show ?thesis
    using run sanitized_positional [of ?ex "products req"]
      updates_positional [of ?ex "products req"]
    unfolding keep by blast
qed

text \<open>
  The scenario of the specification: customer \<^verbatim>\<open>C1\<close>, catalog \<^verbatim>\<open>P1\<close> (5 at 10.0) and
  \<^verbatim>\<open>P2\<close> (2 at 3.0), request \<^verbatim>\<open>[{P1,3},{P2,2}]\<close>: the order lines are
  \<^verbatim>\<open>[{P1,3,10.0},{P2,2,3.0}]\<close> and the stock updates \<^verbatim>\<open>P1:2\<close>, \<^verbatim>\<open>P2:0\<close>.
\<close>

theorem execute_success_witness:
  "findById (inMemory [''C1''] scenarioCatalog) ''C1'' = Some ''C1'' \<and>
   [\<lparr>id' = ''P1'', quantity = Finite 3\<rparr>, \<lparr>id' = ''P2'', quantity = Finite 2\<rparr>] \<noteq> [] \<and>
   execute (inMemory [''C1''] scenarioCatalog)
      \<lparr>customer_id = ''C1'',
       products = [\<lparr>id' = ''P1'', quantity = Finite 3\<rparr>, \<lparr>id' = ''P2'', quantity = Finite 2\<rparr>]\<rparr> =
     (Inr (''C1'', [\<lparr>product_id = ''P1'', quantity_s = Finite 3, price_s = Finite 10\<rparr>,
                   \<lparr>product_id = ''P2'', quantity_s = Finite 2, price_s = Finite 3\<rparr>]),
      [FindById ''C1'',
       FindAllById [\<lparr>id' = ''P1'', quantity = Finite 3\<rparr>, \<lparr>id' = ''P2'', quantity = Finite 2\<rparr>],
       Create ''C1'' [\<lparr>product_id = ''P1'', quantity_s = Finite 3, price_s = Finite 10\<rparr>,
                     \<lparr>product_id = ''P2'', quantity_s = Finite 2, price_s = Finite 3\<rparr>],
       UpdateQuantity [\<lparr>id' = ''P1'', quantity = Finite 2, price = Finite 10\<rparr>,
                       \<lparr>id' = ''P2'', quantity = Finite 0, price = Finite 3\<rparr>]])"
proof -
  let ?R = "inMemory [''C1''] scenarioCatalog"
  let ?Q = "\<lparr>customer_id = ''C1'',
       products = [\<lparr>id' = ''P1'', quantity = Finite 3\<rparr>, \<lparr>id' = ''P2'', quantity = Finite 2\<rparr>]\<rparr>"
  have fetched: "findAllById ?R (products ?Q) = scenarioCatalog"
    by (simp add: inMemory_def scenarioCatalog_def)
  have h1: "findById ?R (customer_id ?Q) = Some ''C1''"
    by (simp add: inMemory_def)
  have h2: "products ?Q \<noteq> []"
    by simp
  have h3: "\<forall>l \<in> set (products ?Q).
              \<exists>m. findMatch (findAllById ?R (products ?Q)) l = Some m \<and> quantity l \<le> quantity m"
    unfolding fetched by (simp add: findMatch_def scenarioCatalog_def)
  from execute_success [OF h1 h2 h3] obtain lines ups where
    run: "execute ?R ?Q =
            (Inr (create ?R ''C1'' lines),
             [FindById (customer_id ?Q), FindAllById (products ?Q),
              Create ''C1'' lines, UpdateQuantity ups])"
    and lines: "list_all2 (\<lambda>l s. \<exists>m. findMatch (findAllById ?R (products ?Q)) l = Some m \<and>
                         s = \<lparr>product_id = id' l, quantity_s = quantity l, price_s = price m\<rparr>)
             (products ?Q) lines"
    and ups: "list_all2 (\<lambda>l u. \<exists>m. findMatch (findAllById ?R (products ?Q)) l = Some m \<and>
                         u = m\<lparr>quantity := quantity m - quantity l\<rparr>)
             (products ?Q) ups"
    by blast
  from lines have "lines = [\<lparr>product_id = ''P1'', quantity_s = Finite 3, price_s = Finite 10\<rparr>,
                   \<lparr>product_id = ''P2'', quantity_s = Finite 2, price_s = Finite 3\<rparr>]"
    unfolding fetched by (auto simp: list_all2_Cons1 findMatch_def scenarioCatalog_def)
  moreover from ups have "ups = [\<lparr>id' = ''P1'', quantity = Finite 2, price = Finite 10\<rparr>,
                       \<lparr>id' = ''P2'', quantity = Finite 0, price = Finite 3\<rparr>]"
    unfolding fetched by (auto simp: list_all2_Cons1 findMatch_def scenarioCatalog_def)
  ultimately show ?thesis
    using run h1 by (simp add: inMemory_def)
qed

section \<open>Failing calls write nothing\<close>

text \<open>
  Claim C2. Whenever \<open>execute\<close> fails, the trace of the call holds no write: neither
  \<^verbatim>\<open>ordersRepository.create\<close> nor \<^verbatim>\<open>productsRepository.updateQuantity\<close> has been
  called. The error is then one of the four the service throws: customer not found,
  empty order, product not found, insufficient stock.
\<close>

theorem failure_no_writes:
  assumes "fst (execute repos req) = Inl e"
  shows "filter is_write (snd (execute repos req)) = [] \<and>
         e \<in> {AppError customerNotFound, AppError emptyOrder,
              AppError (productNotFound (nonExistentProducts
                 (validate (findAllById repos (products req)) (products req)))),
              AppError (insufficientStock (invalidQuantityProducts
                 (validate (findAllById repos (products req)) (products req))))}"
  using assms
  by (auto simp: execute_def Let_def split: option.splits if_splits)

text \<open>
  The failing request of the specification's scenario, \<^verbatim>\<open>[{P1,3},{P2,5}]\<close>: the call
  fails on \<^verbatim>\<open>P2\<close> and writes nothing.
\<close>

theorem failure_no_writes_witness:
  "fst (execute (inMemory [''C1''] scenarioCatalog)
      \<lparr>customer_id = ''C1'',
       products = [\<lparr>id' = ''P1'', quantity = Finite 3\<rparr>, \<lparr>id' = ''P2'', quantity = Finite 5\<rparr>]\<rparr>) =
     Inl (AppError (''The given quantity for the product '' @ apostrophe @ ''P2'' @
                    apostrophe @ '' is not available.'')) \<and>
   filter is_write (snd (execute (inMemory [''C1''] scenarioCatalog)
      \<lparr>customer_id = ''C1'',
       products = [\<lparr>id' = ''P1'', quantity = Finite 3\<rparr>, \<lparr>id' = ''P2'', quantity = Finite 5\<rparr>]\<rparr>)) = []"
proof -
  let ?R = "inMemory [''C1''] scenarioCatalog"
  let ?Q = "\<lparr>customer_id = ''C1'',
       products = [\<lparr>id' = ''P1'', quantity = Finite 3\<rparr>, \<lparr>id' = ''P2'', quantity = Finite 5\<rparr>]\<rparr>"
  have fails: "fst (execute ?R ?Q) =
     Inl (AppError (''The given quantity for the product '' @ apostrophe @ ''P2'' @
                    apostrophe @ '' is not available.''))"
    by (simp add: execute_def inMemory_def scenarioCatalog_def validate_def reducer_def
          initialValidation_def insufficientStock_def Let_def)
  from failure_no_writes [OF fails] fails show ?thesis by simp
qed

section \<open>The error messages name the last offending line\<close>

text \<open>
  Claim C3. The claim is that the message of a failed existence check reports the first
  missing product id in request order, with the number of the other missing lines, and
  likewise for the quantity check. The count is as claimed (\<open>execute_productNotFound\<close>,
  \<open>execute_insufficientStock\<close>), the id is not: the tracker's field \<^verbatim>\<open>first\<close> is
  assigned at every offending line, so it ends up holding the last one. With \<^verbatim>\<open>P9\<close> and
  \<^verbatim>\<open>P8\<close> both missing, in this order, the message names \<^verbatim>\<open>P8\<close>; with \<^verbatim>\<open>P1\<close> and
  \<^verbatim>\<open>P2\<close> both asking for too much, it names \<^verbatim>\<open>P2\<close>.
\<close>

theorem productNotFound_reports_last:
  "fst (execute (inMemory [''C1''] scenarioCatalog)
      \<lparr>customer_id = ''C1'',
       products = [\<lparr>id' = ''P9'', quantity = Finite 1\<rparr>, \<lparr>id' = ''P8'', quantity = Finite 1\<rparr>]\<rparr>) =
     Inl (AppError (''Could not find product_id '' @ apostrophe @ ''P8'' @ apostrophe @
                    '' and others (1) products.'')) \<and>
   fst (execute (inMemory [''C1''] scenarioCatalog)
      \<lparr>customer_id = ''C1'',
       products = [\<lparr>id' = ''P1'', quantity = Finite 9\<rparr>, \<lparr>id' = ''P2'', quantity = Finite 9\<rparr>]\<rparr>) =
     Inl (AppError (''The given quantity for the product '' @ apostrophe @ ''P2'' @
                    apostrophe @ '' is not available.'' @
                    '' Another (1) products also exceed the quantity available.''))"
  by (simp add: run_simps)

section \<open>Existence failures before quantity failures\<close>

text \<open>
  Claim C4. The claim is that a request holding both a line absent from the catalog and a
  line asking for more than the stock fails with the product-not-found error. The
  service decides it with \<^verbatim>\<open>if (nonExistentProducts.first)\<close>, which the empty string
  does not pass: when the last missing line has the empty id, the existence failure is
  skipped and the call fails on the quantity instead (for ids that are not empty, see
  \<open>execute_productNotFound\<close>). Here the line with the empty id is missing, \<^verbatim>\<open>P1\<close> asks
  for 9 of 5, and the error raised is the one about the quantity of \<^verbatim>\<open>P1\<close>.
\<close>

theorem empty_id_masks_missing_product:
  "findMatch scenarioCatalog \<lparr>id' = [], quantity = Finite 1\<rparr> = None \<and>
   findMatch scenarioCatalog \<lparr>id' = ''P1'', quantity = Finite 9\<rparr> =
     Some \<lparr>id' = ''P1'', quantity = Finite 5, price = Finite 10\<rparr> \<and>
   execute (inMemory [''C1''] scenarioCatalog)
      \<lparr>customer_id = ''C1'',
       products = [\<lparr>id' = [], quantity = Finite 1\<rparr>, \<lparr>id' = ''P1'', quantity = Finite 9\<rparr>]\<rparr> =
     (Inl (AppError (''The given quantity for the product '' @ apostrophe @ ''P1'' @
                     apostrophe @ '' is not available.'')),
      [FindById ''C1'',
       FindAllById [\<lparr>id' = [], quantity = Finite 1\<rparr>, \<lparr>id' = ''P1'', quantity = Finite 9\<rparr>]])"
  by (simp add: run_simps)

section \<open>Each line has exactly one outcome\<close>

text \<open>
  Claim C5. Take any line \<open>l\<close> of a request, with the lines \<open>xs\<close> before it and \<open>ys\<close>
  after it. If no fetched entry has its id, the line adds one to the non-existent count
  and nothing else (its quantity plays no role). Otherwise, with \<open>m\<close> the entry matched,
  if it asks for more than \<open>m\<close> holds it adds one to the insufficient-stock count and
  nothing else; otherwise, that is whenever the comparison of line 73 is false (asking
  for at most what \<open>m\<close> holds, so for exactly what it holds too), it adds nothing to the
  counts and contributes one sanitized line and one stock update, at its place.
\<close>

theorem line_classified_once:
  "(findMatch ex l = None \<longrightarrow>
      nonExistentCount ex (xs @ l # ys) = nonExistentCount ex xs + 1 + nonExistentCount ex ys \<and>
      invalidQuantityCount ex (xs @ l # ys) =
        invalidQuantityCount ex xs + invalidQuantityCount ex ys \<and>
      sanitizedLines ex (xs @ l # ys) = sanitizedLines ex xs @ sanitizedLines ex ys \<and>
      stockUpdates ex (xs @ l # ys) = stockUpdates ex xs @ stockUpdates ex ys) \<and>
   (\<forall>m. findMatch ex l = Some m \<and> quantity l > quantity m \<longrightarrow>
      nonExistentCount ex (xs @ l # ys) = nonExistentCount ex xs + nonExistentCount ex ys \<and>
      invalidQuantityCount ex (xs @ l # ys) =
        invalidQuantityCount ex xs + 1 + invalidQuantityCount ex ys \<and>
      sanitizedLines ex (xs @ l # ys) = sanitizedLines ex xs @ sanitizedLines ex ys \<and>
      stockUpdates ex (xs @ l # ys) = stockUpdates ex xs @ stockUpdates ex ys) \<and>
   (\<forall>m. findMatch ex l = Some m \<and> (quantity l \<le> quantity m \<or> \<not> quantity l > quantity m) \<longrightarrow>
      nonExistentCount ex (xs @ l # ys) = nonExistentCount ex xs + nonExistentCount ex ys \<and>
      invalidQuantityCount ex (xs @ l # ys) =
        invalidQuantityCount ex xs + invalidQuantityCount ex ys \<and>
      sanitizedLines ex (xs @ l # ys) =
        sanitizedLines ex xs @
          \<lparr>product_id = id' l, quantity_s = quantity l, price_s = price m\<rparr> #
          sanitizedLines ex ys \<and>
      stockUpdates ex (xs @ l # ys) =
        stockUpdates ex xs @ m\<lparr>quantity := quantity m - quantity l\<rparr> # stockUpdates ex ys)"
proof (intro conjI allI impI)
  assume "findMatch ex l = None"
  then have c: "classify ex l = NonExistent" by (simp add: classify_NonExistent_iff)
  show "nonExistentCount ex (xs @ l # ys) =
          nonExistentCount ex xs + 1 + nonExistentCount ex ys"
    and "invalidQuantityCount ex (xs @ l # ys) =
          invalidQuantityCount ex xs + invalidQuantityCount ex ys"
    and "sanitizedLines ex (xs @ l # ys) = sanitizedLines ex xs @ sanitizedLines ex ys"
    and "stockUpdates ex (xs @ l # ys) = stockUpdates ex xs @ stockUpdates ex ys"
    by (simp_all add: validate_split c)
next
  fix m assume "findMatch ex l = Some m \<and> quantity l > quantity m"
  then have c: "classify ex l = InvalidQuantity"
    by (auto simp: classify_InvalidQuantity_iff)
  show "nonExistentCount ex (xs @ l # ys) = nonExistentCount ex xs + nonExistentCount ex ys"
    and "invalidQuantityCount ex (xs @ l # ys) =
          invalidQuantityCount ex xs + 1 + invalidQuantityCount ex ys"
    and "sanitizedLines ex (xs @ l # ys) = sanitizedLines ex xs @ sanitizedLines ex ys"
    and "stockUpdates ex (xs @ l # ys) = stockUpdates ex xs @ stockUpdates ex ys"
    by (simp_all add: validate_split c)
next
  fix m
  assume "findMatch ex l = Some m \<and> (quantity l \<le> quantity m \<or> \<not> quantity l > quantity m)"
  then have c: "classify ex l = Accepted m"
    by (auto simp: classify_Accepted_iff dest: le_not_less)
  show "nonExistentCount ex (xs @ l # ys) = nonExistentCount ex xs + nonExistentCount ex ys"
    and "invalidQuantityCount ex (xs @ l # ys) =
          invalidQuantityCount ex xs + invalidQuantityCount ex ys"
    and "sanitizedLines ex (xs @ l # ys) =
        sanitizedLines ex xs @
          \<lparr>product_id = id' l, quantity_s = quantity l, price_s = price m\<rparr> #
          sanitizedLines ex ys"
    and "stockUpdates ex (xs @ l # ys) =
        stockUpdates ex xs @ m\<lparr>quantity := quantity m - quantity l\<rparr> # stockUpdates ex ys"
    by (simp_all add: validate_split c sanitizedLine_def stockUpdate_def)
qed

text \<open>
  One line of each kind against the scenario's catalog: \<^verbatim>\<open>P9\<close> is missing, \<^verbatim>\<open>P1\<close> asks
  for 9 of 5, \<^verbatim>\<open>P2\<close> asks for exactly the 2 in stock and is accepted.
\<close>

theorem line_classified_once_witness:
  "findMatch scenarioCatalog \<lparr>id' = ''P9'', quantity = Finite 1\<rparr> = None \<and>
   findMatch scenarioCatalog \<lparr>id' = ''P1'', quantity = Finite 9\<rparr> =
     Some \<lparr>id' = ''P1'', quantity = Finite 5, price = Finite 10\<rparr> \<and>
   findMatch scenarioCatalog \<lparr>id' = ''P2'', quantity = Finite 2\<rparr> =
     Some \<lparr>id' = ''P2'', quantity = Finite 2, price = Finite 3\<rparr> \<and>
   nonExistentCount scenarioCatalog
     [\<lparr>id' = ''P9'', quantity = Finite 1\<rparr>, \<lparr>id' = ''P2'', quantity = Finite 2\<rparr>,
      \<lparr>id' = ''P1'', quantity = Finite 9\<rparr>] = 1 \<and>
   invalidQuantityCount scenarioCatalog
     [\<lparr>id' = ''P9'', quantity = Finite 1\<rparr>, \<lparr>id' = ''P2'', quantity = Finite 2\<rparr>,
      \<lparr>id' = ''P1'', quantity = Finite 9\<rparr>] = 1 \<and>
   sanitizedLines scenarioCatalog
     [\<lparr>id' = ''P9'', quantity = Finite 1\<rparr>, \<lparr>id' = ''P2'', quantity = Finite 2\<rparr>,
      \<lparr>id' = ''P1'', quantity = Finite 9\<rparr>] =
     [\<lparr>product_id = ''P2'', quantity_s = Finite 2, price_s = Finite 3\<rparr>] \<and>
   stockUpdates scenarioCatalog
     [\<lparr>id' = ''P9'', quantity = Finite 1\<rparr>, \<lparr>id' = ''P2'', quantity = Finite 2\<rparr>,
      \<lparr>id' = ''P1'', quantity = Finite 9\<rparr>] =
     [\<lparr>id' = ''P2'', quantity = Finite 0, price = Finite 3\<rparr>]"
proof -
  let ?a = "\<lparr>id' = ''P9'', quantity = Finite 1\<rparr>"
  let ?b = "\<lparr>id' = ''P2'', quantity = Finite 2\<rparr>"
  let ?c = "\<lparr>id' = ''P1'', quantity = Finite 9\<rparr>"
  have a: "findMatch scenarioCatalog ?a = None"
    and b: "findMatch scenarioCatalog ?b = Some \<lparr>id' = ''P2'', quantity = Finite 2, price = Finite 3\<rparr>"
    and c: "findMatch scenarioCatalog ?c = Some \<lparr>id' = ''P1'', quantity = Finite 5, price = Finite 10\<rparr>"
    by (simp_all add: findMatch_def scenarioCatalog_def)
  have empty: "nonExistentCount scenarioCatalog [] = 0"
    "invalidQuantityCount scenarioCatalog [] = 0"
    "sanitizedLines scenarioCatalog [] = []" "stockUpdates scenarioCatalog [] = []"
    by (simp_all add: validate_def initialValidation_def)
  from line_classified_once [of scenarioCatalog ?c "[]" "[]"] c empty
  have last: "nonExistentCount scenarioCatalog [?c] = 0"
    "invalidQuantityCount scenarioCatalog [?c] = 1"
    "sanitizedLines scenarioCatalog [?c] = []" "stockUpdates scenarioCatalog [?c] = []"
    by simp_all
  from line_classified_once [of scenarioCatalog ?b "[]" "[?c]"] b last empty
  have mid: "nonExistentCount scenarioCatalog [?b, ?c] = 0"
    "invalidQuantityCount scenarioCatalog [?b, ?c] = 1"
    "sanitizedLines scenarioCatalog [?b, ?c] =
       [\<lparr>product_id = ''P2'', quantity_s = Finite 2, price_s = Finite 3\<rparr>]"
    "stockUpdates scenarioCatalog [?b, ?c] = [\<lparr>id' = ''P2'', quantity = Finite 0, price = Finite 3\<rparr>]"
    by simp_all
  from line_classified_once [of scenarioCatalog ?a "[]" "[?b, ?c]"] a mid empty
  have "nonExistentCount scenarioCatalog [?a, ?b, ?c] = 1"
    "invalidQuantityCount scenarioCatalog [?a, ?b, ?c] = 1"
    "sanitizedLines scenarioCatalog [?a, ?b, ?c] =
       [\<lparr>product_id = ''P2'', quantity_s = Finite 2, price_s = Finite 3\<rparr>]"
    "stockUpdates scenarioCatalog [?a, ?b, ?c] = [\<lparr>id' = ''P2'', quantity = Finite 0, price = Finite 3\<rparr>]"
    by simp_all
  with a b c show ?thesis by simp
qed

section \<open>Duplicate lines\<close>



section \<open>The customer check, then the emptiness check\<close>

text \<open>
  Claim C7. For a customer id the lookup does not know, \<open>execute\<close> fails with the
  customer-not-found error whatever the lines are, an empty list included, and the only
  collaborator call made is the lookup. For a known customer and no lines, it fails with
  the empty-order error, again with the lookup as only call: the catalog has not been
  fetched. The two errors differ.
\<close>

theorem customer_then_emptiness:
  "(findById repos (customer_id req) = None \<longrightarrow>
      execute repos req = (Inl (AppError customerNotFound), [FindById (customer_id req)])) \<and>
   (\<forall>c. findById repos (customer_id req) = Some c \<and> products req = [] \<longrightarrow>
      execute repos req = (Inl (AppError emptyOrder), [FindById (customer_id req)])) \<and>
   customerNotFound \<noteq> emptyOrder"
  by (simp add: execute_def customerNotFound_def emptyOrder_def)

text \<open>
  Against the scenario's stores, where only \<^verbatim>\<open>C1\<close> is a customer: \<^verbatim>\<open>C2\<close> with no
  lines fails on the customer, \<^verbatim>\<open>C1\<close> with no lines fails on the emptiness.
\<close>

theorem customer_then_emptiness_witness:
  "findById (inMemory [''C1''] scenarioCatalog) ''C2'' = None \<and>
   execute (inMemory [''C1''] scenarioCatalog) \<lparr>customer_id = ''C2'', products = []\<rparr> =
     (Inl (AppError ''Customer not found.''), [FindById ''C2'']) \<and>
   findById (inMemory [''C1''] scenarioCatalog) ''C1'' = Some ''C1'' \<and>
   execute (inMemory [''C1''] scenarioCatalog) \<lparr>customer_id = ''C1'', products = []\<rparr> =
     (Inl (AppError ''Less than one product to create an order.''), [FindById ''C1''])"
proof -
  let ?R = "inMemory [''C1''] scenarioCatalog"
  have h1: "findById ?R ''C2'' = None" and h2: "findById ?R ''C1'' = Some ''C1''"
    by (simp_all add: inMemory_def)
  from customer_then_emptiness [of ?R "\<lparr>customer_id = ''C2'', products = []\<rparr>"] h1
  have "execute ?R \<lparr>customer_id = ''C2'', products = []\<rparr> =
     (Inl (AppError ''Customer not found.''), [FindById ''C2''])"
    by (simp add: customerNotFound_def)
  moreover
  from customer_then_emptiness [of ?R "\<lparr>customer_id = ''C1'', products = []\<rparr>"] h2
  have "execute ?R \<lparr>customer_id = ''C1'', products = []\<rparr> =
     (Inl (AppError ''Less than one product to create an order.''), [FindById ''C1''])"
    by (simp add: emptyOrder_def)
  ultimately show ?thesis using h1 h2 by simp
qed

section \<open>Stock updates are never negative\<close>

text \<open>
  Claim C8, as stated: for every catalog whose quantities are non-negative integers,
  every stock update computed has a non-negative quantity. The claim restricts the
  catalog only, and the service checks nothing about a requested quantity: for a line
  asking for \<^verbatim>\<open>NaN\<close> of \<^verbatim>\<open>P1\<close> the comparison of line 73 is false, the line is accepted,
  and the update handed over has the quantity \<^verbatim>\<open>5 - NaN\<close>, which is \<^verbatim>\<open>NaN\<close> and not at
  least 0.
\<close>

theorem nan_quantity_counterexample:
  "list_all (\<lambda>p. nonNegativeInteger (quantity p)) scenarioCatalog \<and>
   execute (inMemory [''C1''] scenarioCatalog)
     \<lparr>customer_id = ''C1'', products = [\<lparr>id' = ''P1'', quantity = NaN\<rparr>]\<rparr> =
     (Inr (''C1'', [\<lparr>product_id = ''P1'', quantity_s = NaN, price_s = Finite 10\<rparr>]),
      [FindById ''C1'', FindAllById [\<lparr>id' = ''P1'', quantity = NaN\<rparr>],
       Create ''C1'' [\<lparr>product_id = ''P1'', quantity_s = NaN, price_s = Finite 10\<rparr>],
       UpdateQuantity [\<lparr>id' = ''P1'', quantity = NaN, price = Finite 10\<rparr>]]) \<and>
   \<not> Finite 0 \<le> quantity \<lparr>id' = ''P1'', quantity = NaN, price = Finite 10\<rparr>"
  by (simp add: run_simps)

text \<open>
  Claim C8, amended. For every call in which the fetched catalog entries have
  non-negative integers as quantities and no requested quantity is \<^verbatim>\<open>NaN\<close>, every stock
  update the reduction computes has a quantity of at least 0, and so has every update
  handed to \<^verbatim>\<open>updateQuantity\<close>: a line is accepted only when it does not ask for more than
  the entry holds. When moreover the customer is known and every line is accepted, the
  call does hand the updates over, as its last collaborator call.
\<close>

theorem stock_updates_nonnegative:
  assumes cat: "\<forall>p \<in> set (fetched repos req). nonNegativeInteger (quantity p)"
    and lines: "\<forall>l \<in> set (products req). quantity l \<noteq> NaN"
  shows "(\<forall>u \<in> set (stockUpdates (fetched repos req) (products req)). Finite 0 \<le> quantity u) \<and>
         (\<forall>us. UpdateQuantity us \<in> set (snd (execute repos req)) \<longrightarrow>
            (\<forall>u \<in> set us. Finite 0 \<le> quantity u)) \<and>
         (\<forall>c. findById repos (customer_id req) = Some c \<and> products req \<noteq> [] \<and>
              (\<forall>l \<in> set (products req). accepted (fetched repos req) l) \<longrightarrow>
            (\<exists>order lines us.
               execute repos req =
                 (Inr order, [FindById (customer_id req), FindAllById (products req),
                              Create c lines, UpdateQuantity us]) \<and>
               (\<forall>u \<in> set us. Finite 0 \<le> quantity u)))"
proof -
  let ?ex = "fetched repos req"
  have computed: "Finite 0 \<le> quantity u" if "u \<in> set (stockUpdates ?ex (products req))" for u
  proof -
    from update_origin [OF that] obtain l m where
      l: "l \<in> set (products req)" and m: "findMatch ?ex l = Some m"
      and le: "\<not> quantity m < quantity l" and u: "u = m\<lparr>quantity := quantity m - quantity l\<rparr>"
      by blast
    from m have "m \<in> set ?ex" by (simp add: findMatch_Some)
    with cat have "nonNegativeInteger (quantity m)" by blast
    moreover from l lines have "quantity l \<noteq> NaN" by blast
    ultimately have "Finite 0 \<le> quantity m - quantity l"
      using le by (rule difference_nonnegative)
    with u show ?thesis by simp
  qed
  have handed: "Finite 0 \<le> quantity u"
    if "UpdateQuantity us \<in> set (snd (execute repos req))" and "u \<in> set us" for us u
    using execute_updates [OF that(1)] that(2) computed by simp
  have succeeds: "\<exists>order lines us.
      execute repos req =
        (Inr order, [FindById (customer_id req), FindAllById (products req),
                     Create c lines, UpdateQuantity us]) \<and>
      (\<forall>u \<in> set us. Finite 0 \<le> quantity u)"
    if "findById repos (customer_id req) = Some c \<and> products req \<noteq> [] \<and>
        (\<forall>l \<in> set (products req). accepted ?ex l)" for c
  proof -
    from that have "execute repos req =
        (Inr (create repos c (sanitizedLines ?ex (products req))),
         [FindById (customer_id req), FindAllById (products req),
          Create c (sanitizedLines ?ex (products req)),
          UpdateQuantity (stockUpdates ?ex (products req))])"
      by (intro execute_all_accepted) simp_all
    with computed show ?thesis by blast
  qed
  from computed handed succeeds show ?thesis by blast
qed

text \<open>
  The successful request of the scenario: the updates handed over are 2 and 0.
\<close>

theorem stock_updates_nonnegative_witness:
  "list_all (\<lambda>p. nonNegativeInteger (quantity p))
     (fetched (inMemory [''C1''] scenarioCatalog)
        \<lparr>customer_id = ''C1'',
         products = [\<lparr>id' = ''P1'', quantity = Finite 3\<rparr>,
                     \<lparr>id' = ''P2'', quantity = Finite 2\<rparr>]\<rparr>) \<and>
   list_all (\<lambda>l. quantity l \<noteq> NaN)
     [\<lparr>id' = ''P1'', quantity = Finite 3\<rparr>, \<lparr>id' = ''P2'', quantity = Finite 2\<rparr>] \<and>
   UpdateQuantity [\<lparr>id' = ''P1'', quantity = Finite 2, price = Finite 10\<rparr>,
                   \<lparr>id' = ''P2'', quantity = Finite 0, price = Finite 3\<rparr>]
     \<in> set (snd (execute (inMemory [''C1''] scenarioCatalog)
          \<lparr>customer_id = ''C1'',
           products = [\<lparr>id' = ''P1'', quantity = Finite 3\<rparr>,
                       \<lparr>id' = ''P2'', quantity = Finite 2\<rparr>]\<rparr>)) \<and>
   list_all (\<lambda>u. Finite 0 \<le> quantity u)
     [\<lparr>id' = ''P1'', quantity = Finite 2, price = Finite 10\<rparr>,
      \<lparr>id' = ''P2'', quantity = Finite 0, price = Finite 3\<rparr>]"
proof -
  let ?R = "inMemory [''C1''] scenarioCatalog"
  let ?Q = "\<lparr>customer_id = ''C1'',
       products = [\<lparr>id' = ''P1'', quantity = Finite 3\<rparr>,
                   \<lparr>id' = ''P2'', quantity = Finite 2\<rparr>]\<rparr>"
  let ?us = "[\<lparr>id' = ''P1'', quantity = Finite 2, price = Finite 10\<rparr>,
              \<lparr>id' = ''P2'', quantity = Finite 0, price = Finite 3\<rparr>]"
  have cat: "\<forall>p \<in> set (fetched ?R ?Q). nonNegativeInteger (quantity p)"
    by (simp add: inMemory_def scenarioCatalog_def)
  have lines: "\<forall>l \<in> set (products ?Q). quantity l \<noteq> NaN"
    by simp
  have issued: "UpdateQuantity ?us \<in> set (snd (execute ?R ?Q))"
    by (simp add: run_simps)
  from stock_updates_nonnegative [OF cat lines] issued
  have "\<forall>u \<in> set ?us. Finite 0 \<le> quantity u" by blast
  then have "list_all (\<lambda>u. Finite 0 \<le> quantity u) ?us" by (simp only: list_all_iff)
  moreover from cat have "list_all (\<lambda>p. nonNegativeInteger (quantity p)) (fetched ?R ?Q)"
    by (simp only: list_all_iff)
  moreover from lines have "list_all (\<lambda>l. quantity l \<noteq> NaN) (products ?Q)"
    by (simp only: list_all_iff)
  ultimately show ?thesis using issued by simp
qed

section \<open>Quantities that are not positive\<close>

text \<open>
  Claim C9, as stated: a line with a zero or negative quantity whose product exists is
  taken by the insufficient-stock check rather than accepted. It is not: the only check
  is whether the line asks for more than the entry holds. A line asking for 0 of \<^verbatim>\<open>P1\<close>
  leaves the insufficient-stock tracker untouched, is sanitized, and the order is created.
\<close>

theorem nonpositive_quantity_counterexample:
  "quantity \<lparr>id' = ''P1'', quantity = Finite 0\<rparr> \<le> Finite 0 \<and>
   findMatch scenarioCatalog \<lparr>id' = ''P1'', quantity = Finite 0\<rparr> =
     Some \<lparr>id' = ''P1'', quantity = Finite 5, price = Finite 10\<rparr> \<and>
   invalidQuantityProducts (validate scenarioCatalog [\<lparr>id' = ''P1'', quantity = Finite 0\<rparr>]) =
     \<lparr>first = None, quantity_t = 0\<rparr> \<and>
   sanitizedProducts (validate scenarioCatalog [\<lparr>id' = ''P1'', quantity = Finite 0\<rparr>]) =
     [\<lparr>product_id = ''P1'', quantity_s = Finite 0, price_s = Finite 10\<rparr>] \<and>
   execute (inMemory [''C1''] scenarioCatalog)
      \<lparr>customer_id = ''C1'', products = [\<lparr>id' = ''P1'', quantity = Finite 0\<rparr>]\<rparr> =
     (Inr (''C1'', [\<lparr>product_id = ''P1'', quantity_s = Finite 0, price_s = Finite 10\<rparr>]),
      [FindById ''C1'', FindAllById [\<lparr>id' = ''P1'', quantity = Finite 0\<rparr>],
       Create ''C1'' [\<lparr>product_id = ''P1'', quantity_s = Finite 0, price_s = Finite 10\<rparr>],
       UpdateQuantity [\<lparr>id' = ''P1'', quantity = Finite 5, price = Finite 10\<rparr>]])"
  by (simp add: run_simps)

text \<open>
  Claim C9, amended. The service does not check that a quantity is positive. A line with
  a zero or negative quantity whose product was fetched with a non-negative quantity is
  accepted: it adds nothing to the insufficient-stock count, contributes a sanitized line
  with that quantity, and a stock update of the fetched quantity less the requested one,
  which is not below the fetched quantity.
\<close>

theorem nonpositive_quantity_accepted:
  assumes "findMatch ex l = Some m" and "quantity l \<le> Finite 0" and "Finite 0 \<le> quantity m"
  shows "sanitizedLines ex (xs @ l # ys) =
           sanitizedLines ex xs @
             \<lparr>product_id = id' l, quantity_s = quantity l, price_s = price m\<rparr> #
             sanitizedLines ex ys \<and>
         stockUpdates ex (xs @ l # ys) =
           stockUpdates ex xs @ m\<lparr>quantity := quantity m - quantity l\<rparr> # stockUpdates ex ys \<and>
         invalidQuantityCount ex (xs @ l # ys) =
           invalidQuantityCount ex xs + invalidQuantityCount ex ys \<and>
         quantity m \<le> quantity (m\<lparr>quantity := quantity m - quantity l\<rparr>)"
proof -
  from assms nonpositive_not_exceeding [of "quantity l" "quantity m"]
  have le: "\<not> quantity m < quantity l" "quantity m \<le> quantity m - quantity l"
    by simp_all
  with assms have "classify ex l = Accepted m" by (simp add: classify_Accepted_iff)
  then show ?thesis
    using le by (simp add: validate_split sanitizedLine_def stockUpdate_def)
qed

text \<open>
  A line asking for -3 of \<^verbatim>\<open>P1\<close>, which holds 5: it is accepted and the update is 8.
\<close>

theorem nonpositive_quantity_accepted_witness:
  "findMatch scenarioCatalog \<lparr>id' = ''P1'', quantity = Finite (- 3)\<rparr> =
     Some \<lparr>id' = ''P1'', quantity = Finite 5, price = Finite 10\<rparr> \<and>
   sanitizedLines scenarioCatalog [\<lparr>id' = ''P1'', quantity = Finite (- 3)\<rparr>] =
     [\<lparr>product_id = ''P1'', quantity_s = Finite (- 3), price_s = Finite 10\<rparr>] \<and>
   stockUpdates scenarioCatalog [\<lparr>id' = ''P1'', quantity = Finite (- 3)\<rparr>] =
     [\<lparr>id' = ''P1'', quantity = Finite 8, price = Finite 10\<rparr>] \<and>
   invalidQuantityCount scenarioCatalog [\<lparr>id' = ''P1'', quantity = Finite (- 3)\<rparr>] = 0"
proof -
  let ?l = "\<lparr>id' = ''P1'', quantity = Finite (- 3)\<rparr>"
  let ?m = "\<lparr>id' = ''P1'', quantity = Finite 5, price = Finite 10\<rparr>"
  have h1: "findMatch scenarioCatalog ?l = Some ?m"
    by (simp add: findMatch_def scenarioCatalog_def)
  have h2: "quantity ?l \<le> Finite 0" and h3: "Finite 0 \<le> quantity ?m"
    by simp_all
  have empty: "sanitizedLines scenarioCatalog [] = []" "stockUpdates scenarioCatalog [] = []"
    "invalidQuantityCount scenarioCatalog [] = 0"
    by (simp_all add: validate_def initialValidation_def)
  from nonpositive_quantity_accepted [OF h1 h2 h3, of "[]" "[]"] empty h1
  show ?thesis by simp
qed

section \<open>What a stock update changes\<close>

text \<open>
  Claim C10. The stock updates follow the accepted lines of the request, one update per
  accepted line and in the same order, and the update of a line is the fetched entry the
  line matched with only its quantity changed: id, price and every remaining attribute
  are those of the entry, and the quantity is the entry's less the requested one.
  Whatever list \<open>execute\<close> hands to \<^verbatim>\<open>updateQuantity\<close> is that list; and when the customer
  is known and every line is accepted, \<open>execute\<close> does hand it over, as the last of its
  four collaborator calls.
\<close>

theorem stock_update_frame:
  "list_all2
     (\<lambda>l u. \<exists>m. findMatch (fetched repos req) l = Some m \<and>
              u = m\<lparr>quantity := quantity m - quantity l\<rparr> \<and>
              id' u = id' m \<and> price u = price m \<and> Product.more u = Product.more m \<and>
              quantity u = quantity m - quantity l)
     (filter (accepted (fetched repos req)) (products req))
     (stockUpdates (fetched repos req) (products req)) \<and>
   (\<forall>us. UpdateQuantity us \<in> set (snd (execute repos req)) \<longrightarrow>
      us = stockUpdates (fetched repos req) (products req)) \<and>
   (\<forall>c. findById repos (customer_id req) = Some c \<and> products req \<noteq> [] \<and>
        (\<forall>l \<in> set (products req). accepted (fetched repos req) l) \<longrightarrow>
      execute repos req =
        (Inr (create repos c (sanitizedLines (fetched repos req) (products req))),
         [FindById (customer_id req), FindAllById (products req),
          Create c (sanitizedLines (fetched repos req) (products req)),
          UpdateQuantity (stockUpdates (fetched repos req) (products req))]))"
proof (intro conjI allI impI)
  let ?ex = "fetched repos req"
  show "list_all2
     (\<lambda>l u. \<exists>m. findMatch ?ex l = Some m \<and>
              u = m\<lparr>quantity := quantity m - quantity l\<rparr> \<and>
              id' u = id' m \<and> price u = price m \<and> Product.more u = Product.more m \<and>
              quantity u = quantity m - quantity l)
     (filter (accepted ?ex) (products req)) (stockUpdates ?ex (products req))"
    by (rule list_all2_mono [OF updates_positional]) auto
next
  fix us assume "UpdateQuantity us \<in> set (snd (execute repos req))"
  then show "us = stockUpdates (fetched repos req) (products req)"
    by (rule execute_updates)
next
  fix c
  assume "findById repos (customer_id req) = Some c \<and> products req \<noteq> [] \<and>
        (\<forall>l \<in> set (products req). accepted (fetched repos req) l)"
  then show "execute repos req =
        (Inr (create repos c (sanitizedLines (fetched repos req) (products req))),
         [FindById (customer_id req), FindAllById (products req),
          Create c (sanitizedLines (fetched repos req) (products req)),
          UpdateQuantity (stockUpdates (fetched repos req) (products req))])"
    by (intro execute_all_accepted) simp_all
qed

text \<open>
  Two entries with one more attribute each, a name: the update of the first line carries
  \<^verbatim>\<open>Widget\<close>, the update of the second \<^verbatim>\<open>Gadget\<close>.
\<close>

theorem stock_update_frame_witness:
  "execute
     (inMemory [''C1'']
        [\<lparr>id' = ''P1'', quantity = Finite 5, price = Finite 10, \<dots> = ''Widget''\<rparr>,
         \<lparr>id' = ''P2'', quantity = Finite 2, price = Finite 3, \<dots> = ''Gadget''\<rparr>])
     \<lparr>customer_id = ''C1'',
      products = [\<lparr>id' = ''P1'', quantity = Finite 3\<rparr>,
                  \<lparr>id' = ''P2'', quantity = Finite 2\<rparr>]\<rparr> =
     (Inr (''C1'', [\<lparr>product_id = ''P1'', quantity_s = Finite 3, price_s = Finite 10\<rparr>,
                   \<lparr>product_id = ''P2'', quantity_s = Finite 2, price_s = Finite 3\<rparr>]),
      [FindById ''C1'',
       FindAllById [\<lparr>id' = ''P1'', quantity = Finite 3\<rparr>,
                    \<lparr>id' = ''P2'', quantity = Finite 2\<rparr>],
       Create ''C1'' [\<lparr>product_id = ''P1'', quantity_s = Finite 3, price_s = Finite 10\<rparr>,
                     \<lparr>product_id = ''P2'', quantity_s = Finite 2, price_s = Finite 3\<rparr>],
       UpdateQuantity
         [\<lparr>id' = ''P1'', quantity = Finite 2, price = Finite 10, \<dots> = ''Widget''\<rparr>,
          \<lparr>id' = ''P2'', quantity = Finite 0, price = Finite 3, \<dots> = ''Gadget''\<rparr>]])"
proof -
  let ?cat = "[\<lparr>id' = ''P1'', quantity = Finite 5, price = Finite 10, \<dots> = ''Widget''\<rparr>,
               \<lparr>id' = ''P2'', quantity = Finite 2, price = Finite 3, \<dots> = ''Gadget''\<rparr>]"
  let ?R = "inMemory [''C1''] ?cat"
  let ?ps = "[\<lparr>id' = ''P1'', quantity = Finite 3\<rparr>, \<lparr>id' = ''P2'', quantity = Finite 2\<rparr>]"
  let ?Q = "\<lparr>customer_id = ''C1'', products = ?ps\<rparr>"
  have fetched: "fetched ?R ?Q = ?cat"
    by (simp add: inMemory_def)
  have cust: "findById ?R (customer_id ?Q) = Some ''C1''"
    by (simp add: inMemory_def)
  have nonempty: "products ?Q \<noteq> []"
    by simp
  have all: "\<forall>l \<in> set (products ?Q). accepted (fetched ?R ?Q) l"
    unfolding fetched by (simp add: classify_def findMatch_def)
  then have keep: "filter (accepted (fetched ?R ?Q)) (products ?Q) = products ?Q"
    by (simp only: filter_True)
  have lines: "sanitizedLines ?cat ?ps =
      [\<lparr>product_id = ''P1'', quantity_s = Finite 3, price_s = Finite 10\<rparr>,
       \<lparr>product_id = ''P2'', quantity_s = Finite 2, price_s = Finite 3\<rparr>]"
    by (simp add: validate_def reducer_def initialValidation_def)
  note frame = stock_update_frame [of ?R ?Q]
  from frame [THEN conjunct1] have "list_all2
     (\<lambda>l u. \<exists>m. findMatch ?cat l = Some m \<and>
              u = m\<lparr>quantity := quantity m - quantity l\<rparr> \<and>
              id' u = id' m \<and> price u = price m \<and> Product.more u = Product.more m \<and>
              quantity u = quantity m - quantity l)
     ?ps (stockUpdates ?cat ?ps)"
    unfolding keep unfolding fetched by simp
  then have ups: "stockUpdates ?cat ?ps =
      [\<lparr>id' = ''P1'', quantity = Finite 2, price = Finite 10, \<dots> = ''Widget''\<rparr>,
       \<lparr>id' = ''P2'', quantity = Finite 0, price = Finite 3, \<dots> = ''Gadget''\<rparr>]"
    by (auto simp: list_all2_Cons1 findMatch_def)
  from frame [THEN conjunct2, THEN conjunct2, rule_format, OF conjI [OF cust conjI [OF nonempty all]]]
  have "execute ?R ?Q =
        (Inr (create ?R ''C1'' (sanitizedLines (fetched ?R ?Q) (products ?Q))),
         [FindById (customer_id ?Q), FindAllById (products ?Q),
          Create ''C1'' (sanitizedLines (fetched ?R ?Q) (products ?Q)),
          UpdateQuantity (stockUpdates (fetched ?R ?Q) (products ?Q))])" .
  then show ?thesis
    unfolding fetched using ups lines by (simp add: inMemory_def)
qed

end
